theory Spec2Isabelle
  imports Complex_Main "HOL-Library.AList"
begin

section \<open>Python values\<close>

text \<open>
  The exceptions the analysis functions of \<^verbatim>\<open>data_analysis.py\<close> can raise. A
  \<^verbatim>\<open>ValueError\<close> carries its message.
\<close>

datatype error = ValueError string | KeyError | AttributeError | ZeroDivisionError

text \<open>
  A float is a real number or NaN (\<open>None\<close>). Arithmetic is exact: rounding and the
  infinities of IEEE doubles are not modelled. NaN propagates through arithmetic and
  makes every comparison false, as in Python.
\<close>

type_synonym float = "real option"

abbreviation NaN :: float where
  "NaN \<equiv> None"

definition isnan :: "float \<Rightarrow> bool" where
  "isnan x = (x = NaN)"

definition float_add :: "float \<Rightarrow> float \<Rightarrow> float" where
  "float_add a b = (case a of None \<Rightarrow> NaN | Some x \<Rightarrow> (case b of None \<Rightarrow> NaN | Some y \<Rightarrow> Some (x + y)))"

definition float_sub :: "float \<Rightarrow> float \<Rightarrow> float" where
  "float_sub a b = (case a of None \<Rightarrow> NaN | Some x \<Rightarrow> (case b of None \<Rightarrow> NaN | Some y \<Rightarrow> Some (x - y)))"

definition float_mul :: "float \<Rightarrow> float \<Rightarrow> float" where
  "float_mul a b = (case a of None \<Rightarrow> NaN | Some x \<Rightarrow> (case b of None \<Rightarrow> NaN | Some y \<Rightarrow> Some (x * y)))"

definition float_gt :: "float \<Rightarrow> float \<Rightarrow> bool" where
  "float_gt a b = (case a of None \<Rightarrow> False | Some x \<Rightarrow> (case b of None \<Rightarrow> False | Some y \<Rightarrow> x > y))"


text \<open>Python's \<^verbatim>\<open>a / b\<close> on two lengths: true division, raising on a zero divisor.\<close>

definition true_div :: "nat \<Rightarrow> nat \<Rightarrow> error + real" where
  "true_div a b = (if b = 0 then Inl ZeroDivisionError else Inr (real a / real b))"

text \<open>A \<^verbatim>\<open>for\<close> loop whose body may raise: the first exception ends the loop.\<close>

primrec for_loop :: "('a \<Rightarrow> 's \<Rightarrow> error + 's) \<Rightarrow> 'a list \<Rightarrow> 's \<Rightarrow> error + 's" where
  "for_loop body [] s = Inr s"
| "for_loop body (x # xs) s =
     (case body x s of Inl e \<Rightarrow> Inl e | Inr s' \<Rightarrow> for_loop body xs s')"

section \<open>The pandas operations the program uses\<close>

text \<open>
  A column is a float64 series (null is NaN), a datetime64 series the loader's
  \<^verbatim>\<open>pd.to_datetime\<close> produces (a timestamp is its count of nanoseconds since the
  epoch, null is NaT), or the object series of \<^verbatim>\<open>datetime.date\<close> values that
  \<^verbatim>\<open>.dt.date\<close> returns (a date is its day number since the epoch).
\<close>

datatype series =
    Float64 "float list"
  | Datetime64 "int option list"
  | DateObject "int option list"

text \<open>
  The numbers an aggregate, a comparison or a grouping reads from a column. On a
  float64 column these are its cells. The grouping keys \<^verbatim>\<open>Hour\<close> and
  \<^verbatim>\<open>Date\<close> are read so too: a date as its day number, a timestamp as its nanosecond
  count. The metric columns of a telemetry file are float64; columns of text are outside
  the model.
\<close>

fun numeric :: "series \<Rightarrow> float list" where
  "numeric (Float64 xs) = xs"
| "numeric (Datetime64 ts) = map (map_option real_of_int) ts"
| "numeric (DateObject ds) = map (map_option real_of_int) ds"

text \<open>
  A table: the row labels (\<^verbatim>\<open>df.index\<close>) and the named columns in order
  (\<^verbatim>\<open>df.items()\<close>). Column labels are unique, as \<^verbatim>\<open>read_csv\<close> makes them:
  a lookup finds the first column of a name.
\<close>

record dataframe =
  index :: "nat list"
  items :: "(string \<times> series) list"

definition columns :: "dataframe \<Rightarrow> string list" where
  "columns df = map fst (items df)"

definition len :: "dataframe \<Rightarrow> nat" where
  "len df = length (index df)"

text \<open>
  \<^verbatim>\<open>df[c]\<close> behind the test \<^verbatim>\<open>c in df.columns\<close>: \<open>None\<close> when the table has
  no column \<open>c\<close>.
\<close>

definition getitem :: "dataframe \<Rightarrow> string \<Rightarrow> series option" where
  "getitem df c = map_of (items df) c"

text \<open>\<^verbatim>\<open>df[c] = s\<close>: replaces the column in place or appends it.\<close>

definition setitem :: "dataframe \<Rightarrow> string \<Rightarrow> series \<Rightarrow> dataframe" where
  "setitem df c s = df\<lparr>items := AList.update c s (items df)\<rparr>"

fun dropna :: "float list \<Rightarrow> real list" where
  "dropna [] = []"
| "dropna (None # xs) = dropna xs"
| "dropna (Some x # xs) = x # dropna xs"

definition mean :: "real list \<Rightarrow> float" where
  "mean xs = (if xs = [] then NaN else Some (sum_list xs / real (length xs)))"

text \<open>The sample standard deviation (\<^verbatim>\<open>ddof=1\<close>): NaN below two values.\<close>

definition std :: "real list \<Rightarrow> float" where
  "std xs =
     (if length xs < 2 then NaN
      else let m = sum_list xs / real (length xs)
           in Some (sqrt (sum_list (map (\<lambda>x. (x - m)\<^sup>2) xs) / real (length xs - 1))))"

definition maximum :: "real list \<Rightarrow> float" where
  "maximum xs = (case xs of [] \<Rightarrow> NaN | x # r \<Rightarrow> Some (fold max r x))"

definition minimum :: "real list \<Rightarrow> float" where
  "minimum xs = (case xs of [] \<Rightarrow> NaN | x # r \<Rightarrow> Some (fold min r x))"

text \<open>
  \<^verbatim>\<open>quantile(q)\<close> with the default linear interpolation, for \<open>0 \<le> q \<le> 1\<close> (the
  program passes 0.25, 0.75, 0.90 and 0.95): the value at the fractional position
  \<open>q * (n - 1)\<close> of the sorted sample, NaN on an empty sample.
\<close>

definition quantile :: "real \<Rightarrow> real list \<Rightarrow> float" where
  "quantile q xs =
     (if xs = [] then NaN
      else let s = sort xs;
               pos = q * real (length s - 1);
               lo = nat \<lfloor>pos\<rfloor>;
               hi = min (lo + 1) (length s - 1);
               g = pos - real lo
           in Some (s ! lo + (s ! hi - s ! lo) * g))"

definition median :: "real list \<Rightarrow> float" where
  "median xs =
     (if xs = [] then NaN
      else let s = sort xs; n = length s
           in if odd n then Some (s ! (n div 2))
              else Some ((s ! (n div 2 - 1) + s ! (n div 2)) / 2))"

text \<open>\<^verbatim>\<open>df[mask]\<close>: the rows whose mask entry is true, under their own labels.\<close>

definition select :: "bool list \<Rightarrow> 'a list \<Rightarrow> 'a list" where
  "select keep xs = map snd (filter fst (zip keep xs))"

fun series_select :: "bool list \<Rightarrow> series \<Rightarrow> series" where
  "series_select keep (Float64 xs) = Float64 (select keep xs)"
| "series_select keep (Datetime64 ts) = Datetime64 (select keep ts)"
| "series_select keep (DateObject ds) = DateObject (select keep ds)"

definition loc :: "dataframe \<Rightarrow> bool list \<Rightarrow> dataframe" where
  "loc df keep =
     \<lparr>index = select keep (index df),
      items = map (\<lambda>(c, s). (c, series_select keep s)) (items df)\<rparr>"

text \<open>\<^verbatim>\<open>df[c] > w\<close>: the mask of the cells strictly above \<open>w\<close>.\<close>

definition series_gt :: "series \<Rightarrow> float \<Rightarrow> bool list" where
  "series_gt s w = map (\<lambda>v. float_gt v w) (numeric s)"

text \<open>
  \<^verbatim>\<open>df.copy()\<close> returns a table of the same contents; that it is a new object is
  the subject of the section on references below.
\<close>

definition copy :: "dataframe \<Rightarrow> dataframe" where
  "copy df = df"

subsection \<open>Timestamps\<close>

definition ns_per_hour :: int where
  "ns_per_hour = 3600000000000"

definition ns_per_day :: int where
  "ns_per_day = 86400000000000"

definition dt_hour :: "int \<Rightarrow> int" where
  "dt_hour t = (t div ns_per_hour) mod 24"

definition dt_date :: "int \<Rightarrow> int" where
  "dt_date t = t div ns_per_day"

text \<open>Monday is 0; the epoch was a Thursday.\<close>

definition dt_dayofweek :: "int \<Rightarrow> int" where
  "dt_dayofweek t = (dt_date t + 3) mod 7"

text \<open>The \<^verbatim>\<open>.dt\<close> accessor exists on datetime columns only.\<close>

fun dt :: "series \<Rightarrow> error + int option list" where
  "dt (Datetime64 ts) = Inr ts"
| "dt (Float64 xs) = Inl AttributeError"
| "dt (DateObject ds) = Inl AttributeError"

subsection \<open>Grouping\<close>

text \<open>
  \<^verbatim>\<open>df.groupby(key)[cols].agg(['mean', 'max', 'std']).round(2)\<close>. The groups are
  the distinct non-null keys in ascending order; each aggregate skips nulls; selecting
  a column the table does not have raises \<^verbatim>\<open>KeyError\<close>. The result maps a group key
  to the cells labelled (column, aggregate).
\<close>

type_synonym agg_table = "(real \<times> ((string \<times> string) \<times> float) list) list"

definition round_half_even :: "real \<Rightarrow> int" where
  "round_half_even x =
     (let f = \<lfloor>x\<rfloor>; d = x - of_int f
      in if d < 1 / 2 then f else if 1 / 2 < d then f + 1
         else if even f then f else f + 1)"

definition round2 :: "float \<Rightarrow> float" where
  "round2 x = map_option (\<lambda>v. of_int (round_half_even (v * 100)) / 100) x"

definition group_keys :: "float list \<Rightarrow> real list" where
  "group_keys ks = sort (remdups (dropna ks))"

definition group_values :: "float list \<Rightarrow> float list \<Rightarrow> real \<Rightarrow> real list" where
  "group_values ks vs k = dropna (map snd (filter (\<lambda>kv. fst kv = Some k) (zip ks vs)))"

definition agg_cells :: "float list \<Rightarrow> real \<Rightarrow> string \<times> series \<Rightarrow> ((string \<times> string) \<times> float) list" where
  "agg_cells ks k cs =
     (let vs = group_values ks (numeric (snd cs)) k
      in [((fst cs, ''mean''), round2 (mean vs)),
          ((fst cs, ''max''), round2 (maximum vs)),
          ((fst cs, ''std''), round2 (std vs))])"

definition groupby_agg :: "dataframe \<Rightarrow> string \<Rightarrow> string list \<Rightarrow> error + agg_table" where
  "groupby_agg df key cols =
     (case getitem df key of
        None \<Rightarrow> Inl KeyError
      | Some ks \<Rightarrow>
          (case those (map (\<lambda>c. map_option (Pair c) (getitem df c)) cols) of
             None \<Rightarrow> Inl KeyError
           | Some selected \<Rightarrow>
               Inr (map (\<lambda>k. (k, concat (map (agg_cells (numeric ks) k) selected)))
                        (group_keys (numeric ks)))))"

definition nunique :: "series \<Rightarrow> nat" where
  "nunique s = length (remdups (dropna (numeric s)))"

section \<open>The analysis functions\<close>

text \<open>
  Reading the file is outside the model. Of \<^verbatim>\<open>load_csv\<close> the model keeps which
  column the loader converts to datetimes (lines 24 to 27): \<^verbatim>\<open>Time\<close>, or else
  \<^verbatim>\<open>dteday\<close>.
\<close>

definition load_csv_time_column :: "dataframe \<Rightarrow> string option" where
  "load_csv_time_column df =
     (if ''Time'' \<in> set (columns df) then Some ''Time''
      else if ''dteday'' \<in> set (columns df) then Some ''dteday''
      else None)"

definition metrics :: "string list" where
  "metrics = [''CPU_Usage'', ''Memory_Usage'', ''Network_Usage'', ''Temperature'']"

subsection \<open>Descriptive statistics\<close>

record statistics =
  stat_mean :: float
  stat_median :: float
  stat_std :: float
  stat_min :: float
  stat_max :: float
  stat_q1 :: float
  stat_q3 :: float
  stat_count :: nat

text \<open>
  The body of the loop over \<open>metrics\<close>. The series methods skip nulls, so each
  aggregate is taken over the non-null cells.
\<close>

definition statistics_step ::
  "dataframe \<Rightarrow> string \<Rightarrow> (string \<times> statistics) list \<Rightarrow> (string \<times> statistics) list" where
  "statistics_step df metric stats_dict =
     (case getitem df metric of
        None \<Rightarrow> stats_dict
      | Some col \<Rightarrow>
          let xs = dropna (numeric col)
          in AList.update metric
               \<lparr>stat_mean = mean xs, stat_median = median xs, stat_std = std xs,
                stat_min = minimum xs, stat_max = maximum xs,
                stat_q1 = quantile (25 / 100) xs, stat_q3 = quantile (75 / 100) xs,
                stat_count = length xs\<rparr>
               stats_dict)"

definition calculate_descriptive_statistics :: "dataframe \<Rightarrow> (string \<times> statistics) list" where
  "calculate_descriptive_statistics df = fold (statistics_step df) metrics []"

subsection \<open>Distribution analysis\<close>

text \<open>
  The four \<^verbatim>\<open>scipy.stats\<close> functions the analyzer calls are parameters: each takes
  the sample, may raise, and returns floats. \<open>kstest\<close> also takes the mean and the
  standard deviation the analyzer passes as \<^verbatim>\<open>args\<close>.
\<close>

record scipy_stats =
  shapiro :: "real list \<Rightarrow> error + (float \<times> float)"
  kstest :: "real list \<Rightarrow> float \<Rightarrow> float \<Rightarrow> error + (float \<times> float)"
  skew :: "real list \<Rightarrow> error + float"
  kurtosis :: "real list \<Rightarrow> error + float"

record distribution =
  shapiro_statistic :: float
  shapiro_p_value :: float
  ks_statistic :: float
  ks_p_value :: float
  skewness :: float
  kurtosis_val :: float
  is_normal :: bool

definition shapiro_or_nan :: "scipy_stats \<Rightarrow> real list \<Rightarrow> error + (float \<times> float)" where
  "shapiro_or_nan stats xs = (if length xs \<le> 5000 then shapiro stats xs else Inr (NaN, NaN))"

definition distribution_of :: "scipy_stats \<Rightarrow> real list \<Rightarrow> error + distribution" where
  "distribution_of stats xs =
     (case shapiro_or_nan stats xs of
        Inl e \<Rightarrow> Inl e
      | Inr (shapiro_stat, shapiro_p) \<Rightarrow>
     (case kstest stats xs (mean xs) (std xs) of
        Inl e \<Rightarrow> Inl e
      | Inr (ks_stat, ks_p) \<Rightarrow>
     (case skew stats xs of
        Inl e \<Rightarrow> Inl e
      | Inr skewness_v \<Rightarrow>
     (case kurtosis stats xs of
        Inl e \<Rightarrow> Inl e
      | Inr kurt \<Rightarrow>
          Inr \<lparr>shapiro_statistic = shapiro_stat, shapiro_p_value = shapiro_p,
               ks_statistic = ks_stat, ks_p_value = ks_p,
               skewness = skewness_v, kurtosis_val = kurt,
               is_normal = (if \<not> isnan shapiro_p then float_gt shapiro_p (Some (5 / 100))
                            else float_gt ks_p (Some (5 / 100)))\<rparr>))))"

definition distribution_step ::
  "scipy_stats \<Rightarrow> dataframe \<Rightarrow> string \<Rightarrow> (string \<times> distribution) list
     \<Rightarrow> error + (string \<times> distribution) list" where
  "distribution_step stats df metric distribution_results =
     (case getitem df metric of
        None \<Rightarrow> Inr distribution_results
      | Some col \<Rightarrow>
          (case distribution_of stats (dropna (numeric col)) of
             Inl e \<Rightarrow> Inl e
           | Inr d \<Rightarrow> Inr (AList.update metric d distribution_results)))"

definition analyze_data_distribution ::
  "scipy_stats \<Rightarrow> dataframe \<Rightarrow> error + (string \<times> distribution) list" where
  "analyze_data_distribution stats df = for_loop (distribution_step stats df) metrics []"

subsection \<open>Time patterns\<close>

text \<open>
  Lines 152 to 164: the groupings of the table that carries the derived columns.
\<close>

definition time_patterns_of :: "dataframe \<Rightarrow> error + (string \<times> agg_table) list" where
  "time_patterns_of df =
     (case groupby_agg df ''Hour'' metrics of
        Inl e \<Rightarrow> Inl e
      | Inr hourly_stats \<Rightarrow>
          let time_patterns = AList.update ''hourly'' hourly_stats []
          in (case getitem df ''Date'' of
                None \<Rightarrow> Inl KeyError
              | Some dates \<Rightarrow>
                  if 1 < nunique dates then
                    (case groupby_agg df ''Date'' metrics of
                       Inl e \<Rightarrow> Inl e
                     | Inr daily_stats \<Rightarrow> Inr (AList.update ''daily'' daily_stats time_patterns))
                  else Inr time_patterns))"

definition hour_column :: "int option list \<Rightarrow> series" where
  "hour_column ts = Float64 (map (map_option (\<lambda>t. real_of_int (dt_hour t))) ts)"

definition dayofweek_column :: "int option list \<Rightarrow> series" where
  "dayofweek_column ts = Float64 (map (map_option (\<lambda>t. real_of_int (dt_dayofweek t))) ts)"

definition date_column :: "int option list \<Rightarrow> series" where
  "date_column ts = DateObject (map (map_option dt_date) ts)"

definition analyze_time_patterns :: "dataframe \<Rightarrow> error + (string \<times> agg_table) list" where
  "analyze_time_patterns df0 =
     (case getitem df0 ''Time'' of
        None \<Rightarrow> Inl (ValueError ''Time column not found in DataFrame'')
      | Some _ \<Rightarrow>
          let df = copy df0
          in (case getitem df ''Time'' of
                None \<Rightarrow> Inl KeyError
              | Some time \<Rightarrow>
                  (case dt time of
                     Inl e \<Rightarrow> Inl e
                   | Inr ts \<Rightarrow>
                       let df = setitem df ''Hour'' (hour_column ts);
                           df = setitem df ''DayOfWeek'' (dayofweek_column ts);
                           df = setitem df ''Date'' (date_column ts)
                       in time_patterns_of df)))"

subsection \<open>Thresholds\<close>

record threshold =
  warning :: float
  critical :: float
  method_name :: string

definition threshold_step ::
  "dataframe \<Rightarrow> string \<Rightarrow> string \<Rightarrow> (string \<times> threshold) list \<Rightarrow> (string \<times> threshold) list" where
  "threshold_step df meth metric thresholds =
     (case getitem df metric of
        None \<Rightarrow> thresholds
      | Some col \<Rightarrow>
          let xs = dropna (numeric col)
          in if meth = ''percentile'' then
               AList.update metric
                 \<lparr>warning = quantile (90 / 100) xs, critical = quantile (95 / 100) xs,
                  method_name = ''percentile''\<rparr> thresholds
             else if meth = ''std'' then
               let mean_val = mean xs; std_val = std xs
               in AList.update metric
                    \<lparr>warning = float_add mean_val (float_mul (Some 2) std_val),
                     critical = float_add mean_val (float_mul (Some 3) std_val),
                     method_name = ''standard_deviation''\<rparr> thresholds
             else if meth = ''iqr'' then
               let q1 = quantile (25 / 100) xs; q3 = quantile (75 / 100) xs;
                   iqr = float_sub q3 q1
               in AList.update metric
                    \<lparr>warning = float_add q3 (float_mul (Some (3 / 2)) iqr),
                     critical = float_add q3 (float_mul (Some 3) iqr),
                     method_name = ''iqr''\<rparr> thresholds
             else thresholds)"

definition calculate_alertness_thresholds :: "dataframe \<Rightarrow> string \<Rightarrow> (string \<times> threshold) list" where
  "calculate_alertness_thresholds df meth = fold (threshold_step df meth) metrics []"

subsection \<open>Anomalies\<close>

record anomaly =
  warning_count :: nat
  critical_count :: nat
  warning_data :: dataframe
  critical_data :: dataframe
  warning_percentage :: real
  critical_percentage :: real

definition anomaly_step ::
  "dataframe \<Rightarrow> string \<times> threshold \<Rightarrow> (string \<times> anomaly) list \<Rightarrow> error + (string \<times> anomaly) list" where
  "anomaly_step df entry anomalies =
     (let metric = fst entry; threshold_values = snd entry
      in case getitem df metric of
           None \<Rightarrow> Inr anomalies
         | Some col \<Rightarrow>
             let warning_threshold = warning threshold_values;
                 critical_threshold = critical threshold_values;
                 warning_anomalies = copy (loc df (series_gt col warning_threshold));
                 critical_anomalies = copy (loc df (series_gt col critical_threshold))
             in (case true_div (len warning_anomalies) (len df) of
                   Inl e \<Rightarrow> Inl e
                 | Inr wp \<Rightarrow>
                (case true_div (len critical_anomalies) (len df) of
                   Inl e \<Rightarrow> Inl e
                 | Inr cp \<Rightarrow>
                     Inr (AList.update metric
                            \<lparr>warning_count = len warning_anomalies,
                             critical_count = len critical_anomalies,
                             warning_data = warning_anomalies,
                             critical_data = critical_anomalies,
                             warning_percentage = wp * 100,
                             critical_percentage = cp * 100\<rparr> anomalies))))"

definition detect_anomalies ::
  "dataframe \<Rightarrow> (string \<times> threshold) list \<Rightarrow> error + (string \<times> anomaly) list" where
  "detect_anomalies df thresholds = for_loop (anomaly_step df) thresholds []"

section \<open>Tables as objects\<close>

text \<open>
  A Python variable holds a reference to a table, and \<^verbatim>\<open>df[c] = s\<close> writes to the
  object the variable refers to. The heap lists the table objects; a reference is a
  position in it. \<^verbatim>\<open>df.copy()\<close> allocates a new object with the same contents (the
  copy is deep by default). The functions of this section are the analysis functions
  with the table passed by reference; they return the heap they leave behind, also when
  they raise. Only \<^verbatim>\<open>analyze_time_patterns\<close> assigns to a table; the other four
  functions read their argument and build their results from new series and tables,
  which stay values of the result.
\<close>

type_synonym heap = "dataframe list"

definition copy_ref :: "nat \<Rightarrow> heap \<Rightarrow> nat \<times> heap" where
  "copy_ref r h = (length h, h @ [copy (h ! r)])"

definition setitem_ref :: "nat \<Rightarrow> string \<Rightarrow> series \<Rightarrow> heap \<Rightarrow> heap" where
  "setitem_ref r c s h = h[r := setitem (h ! r) c s]"

definition calculate_descriptive_statistics_ref ::
  "nat \<Rightarrow> heap \<Rightarrow> (string \<times> statistics) list \<times> heap" where
  "calculate_descriptive_statistics_ref df h = (calculate_descriptive_statistics (h ! df), h)"

definition analyze_data_distribution_ref ::
  "scipy_stats \<Rightarrow> nat \<Rightarrow> heap \<Rightarrow> (error + (string \<times> distribution) list) \<times> heap" where
  "analyze_data_distribution_ref stats df h = (analyze_data_distribution stats (h ! df), h)"

definition analyze_time_patterns_ref ::
  "nat \<Rightarrow> heap \<Rightarrow> (error + (string \<times> agg_table) list) \<times> heap" where
  "analyze_time_patterns_ref df0 h0 =
     (case getitem (h0 ! df0) ''Time'' of
        None \<Rightarrow> (Inl (ValueError ''Time column not found in DataFrame''), h0)
      | Some _ \<Rightarrow>
          let (df, h) = copy_ref df0 h0
          in (case getitem (h ! df) ''Time'' of
                None \<Rightarrow> (Inl KeyError, h)
              | Some time \<Rightarrow>
                  (case dt time of
                     Inl e \<Rightarrow> (Inl e, h)
                   | Inr ts \<Rightarrow>
                       let h = setitem_ref df ''Hour'' (hour_column ts) h;
                           h = setitem_ref df ''DayOfWeek'' (dayofweek_column ts) h;
                           h = setitem_ref df ''Date'' (date_column ts) h
                       in (time_patterns_of (h ! df), h))))"

definition calculate_alertness_thresholds_ref ::
  "nat \<Rightarrow> string \<Rightarrow> heap \<Rightarrow> (string \<times> threshold) list \<times> heap" where
  "calculate_alertness_thresholds_ref df meth h = (calculate_alertness_thresholds (h ! df) meth, h)"

definition detect_anomalies_ref ::
  "nat \<Rightarrow> (string \<times> threshold) list \<Rightarrow> heap \<Rightarrow> (error + (string \<times> anomaly) list) \<times> heap" where
  "detect_anomalies_ref df thresholds h = (detect_anomalies (h ! df) thresholds, h)"

section \<open>Sample tables\<close>

text \<open>A table with the five columns of the telemetry file and no rows.\<close>

definition empty_table :: dataframe where
  "empty_table =
     \<lparr>index = [],
      items = [(''Time'', Datetime64 []), (''CPU_Usage'', Float64 []),
               (''Memory_Usage'', Float64 []), (''Network_Usage'', Float64 []),
               (''Temperature'', Float64 [])]\<rparr>"

text \<open>Two readings one hour apart, of the CPU only.\<close>

definition cpu_only_table :: dataframe where
  "cpu_only_table =
     \<lparr>index = [0, 1],
      items = [(''Time'', Datetime64 [Some 0, Some ns_per_hour]),
               (''CPU_Usage'', Float64 [Some 50, Some 70])]\<rparr>"



text \<open>A threshold map with an entry for a metric that \<open>cpu_only_table\<close> lacks.\<close>

definition two_thresholds :: "(string \<times> threshold) list" where
  "two_thresholds =
     [(''CPU_Usage'', \<lparr>warning = Some 60, critical = Some 65, method_name = ''percentile''\<rparr>),
      (''Temperature'', \<lparr>warning = Some 40, critical = Some 45, method_name = ''percentile''\<rparr>)]"

text \<open>Two readings of all four metrics, one day apart; one network reading is null.\<close>

definition two_day_table :: dataframe where
  "two_day_table =
     \<lparr>index = [0, 1],
      items = [(''Time'', Datetime64 [Some 0, Some ns_per_day]),
               (''CPU_Usage'', Float64 [Some 50, Some 70]),
               (''Memory_Usage'', Float64 [Some 4, Some 6]),
               (''Network_Usage'', Float64 [Some 100, NaN]),
               (''Temperature'', Float64 [Some 40, Some 45])]\<rparr>"

text \<open>The same readings one hour apart.\<close>

definition one_day_table :: dataframe where
  "one_day_table =
     \<lparr>index = [0, 1],
      items = [(''Time'', Datetime64 [Some 0, Some ns_per_hour]),
               (''CPU_Usage'', Float64 [Some 50, Some 70]),
               (''Memory_Usage'', Float64 [Some 4, Some 6]),
               (''Network_Usage'', Float64 [Some 100, NaN]),
               (''Temperature'', Float64 [Some 40, Some 45])]\<rparr>"

text \<open>The two-day table with its timestamps under the loader's other name, \<^verbatim>\<open>dteday\<close>.\<close>

definition dteday_table :: dataframe where
  "dteday_table =
     \<lparr>index = [0, 1],
      items = [(''dteday'', Datetime64 [Some 0, Some ns_per_day]),
               (''CPU_Usage'', Float64 [Some 50, Some 70]),
               (''Memory_Usage'', Float64 [Some 4, Some 6]),
               (''Network_Usage'', Float64 [Some 100, NaN]),
               (''Temperature'', Float64 [Some 40, Some 45])]\<rparr>"

text \<open>
  A stand-in for \<^verbatim>\<open>scipy.stats\<close>: its Shapiro-Wilk test reports NaN on a sample of
  fewer than three values, as recent versions of the library do for a sample too small
  for the test (older versions raise); the other results are fixed numbers.
\<close>

definition small_sample_stats :: scipy_stats where
  "small_sample_stats =
     \<lparr>shapiro = (\<lambda>xs. Inr (if length xs < 3 then (NaN, NaN) else (Some 1, Some 1))),
      kstest = (\<lambda>xs m s. Inr (Some (1 / 4), Some (9 / 10))),
      skew = (\<lambda>xs. Inr (Some 0)),
      kurtosis = (\<lambda>xs. Inr (Some (- 2)))\<rparr>"

section \<open>The operations on known values\<close>

text \<open>
  The operations reproduce what the library returns: the interpolated percentiles of
  the five CPU readings 70, 80, 90, 95 and 99, the sample standard deviation, rounding
  of halves to the even neighbour, the hour and date of a timestamp, and the hourly
  grouping of a table of two readings.
\<close>

lemma quantile_example:
  "quantile (90 / 100) [70, 80, 90, 95, 99] = Some (487 / 5)"
  "quantile (95 / 100) [70, 80, 90, 95, 99] = Some (491 / 5)"
  "quantile (25 / 100) [99, 70, 95, 80, 90] = Some 80"
  by (simp_all add: quantile_def Let_def)

lemma aggregate_examples:
  "mean [1, 3, 5] = Some 3"
  "std [1, 3, 5] = Some 2"
  "std [4] = NaN"
  "median [3, 1, 2, 4] = Some (5 / 2)"
  "maximum [3, 1, 4] = Some 4"
  "minimum [3, 1, 4] = Some 1"
  "mean [] = NaN"
  by (simp_all add: mean_def std_def median_def maximum_def minimum_def Let_def power2_eq_square)

lemma round2_examples:
  "round2 (Some (1234 / 1000)) = Some (123 / 100)"
  "round2 (Some (125 / 1000)) = Some (12 / 100)"
  "round2 (Some (135 / 1000)) = Some (14 / 100)"
  "round2 (Some (- 1 / 1000)) = Some 0"
  by (simp_all add: round2_def round_half_even_def Let_def)

lemma timestamp_examples:
  "dt_hour (ns_per_day + 5 * ns_per_hour) = 5"
  "dt_date (ns_per_day + 5 * ns_per_hour) = 1"
  "dt_dayofweek 0 = 3"
  "dt_hour (- ns_per_hour) = 23"
  "dt_date (- ns_per_hour) = - 1"
  by (simp_all add: dt_hour_def dt_date_def dt_dayofweek_def ns_per_day_def ns_per_hour_def)

lemma one_day_patterns:
  "analyze_time_patterns one_day_table =
     Inr [(''hourly'',
           [(0, [((''CPU_Usage'', ''mean''), Some 50), ((''CPU_Usage'', ''max''), Some 50), ((''CPU_Usage'', ''std''), NaN),
                 ((''Memory_Usage'', ''mean''), Some 4), ((''Memory_Usage'', ''max''), Some 4), ((''Memory_Usage'', ''std''), NaN),
                 ((''Network_Usage'', ''mean''), Some 100), ((''Network_Usage'', ''max''), Some 100), ((''Network_Usage'', ''std''), NaN),
                 ((''Temperature'', ''mean''), Some 40), ((''Temperature'', ''max''), Some 40), ((''Temperature'', ''std''), NaN)]),
            (1, [((''CPU_Usage'', ''mean''), Some 70), ((''CPU_Usage'', ''max''), Some 70), ((''CPU_Usage'', ''std''), NaN),
                 ((''Memory_Usage'', ''mean''), Some 6), ((''Memory_Usage'', ''max''), Some 6), ((''Memory_Usage'', ''std''), NaN),
                 ((''Network_Usage'', ''mean''), NaN), ((''Network_Usage'', ''max''), NaN), ((''Network_Usage'', ''std''), NaN),
                 ((''Temperature'', ''mean''), Some 45), ((''Temperature'', ''max''), Some 45), ((''Temperature'', ''std''), NaN)])])]"
  by (simp add: analyze_time_patterns_def time_patterns_of_def groupby_agg_def agg_cells_def
      group_keys_def group_values_def nunique_def one_day_table_def getitem_def setitem_def
      copy_def hour_column_def dayofweek_column_def date_column_def metrics_def
      dt_hour_def dt_date_def dt_dayofweek_def ns_per_hour_def ns_per_day_def
      mean_def std_def maximum_def round2_def round_half_even_def Let_def)

section \<open>Quantiles are monotone\<close>



section \<open>Tables and dictionaries\<close>

lemma getitem_None_iff: "getitem df c = None \<longleftrightarrow> c \<notin> set (columns df)"
  by (simp add: getitem_def columns_def map_of_eq_None_iff)

lemma getitem_Some_columns: "getitem df c = Some s \<Longrightarrow> c \<in> set (columns df)"
  using getitem_None_iff [of df c] by simp

lemma getitem_setitem:
  "getitem (setitem df c s) k = (if k = c then Some s else getitem df k)"
  by (simp add: getitem_def setitem_def update_conv')

lemma columns_setitem: "set (columns df) \<subseteq> set (columns (setitem df c s))"
  by (auto simp: columns_def setitem_def dom_update)




lemma fold_update_keys:
  assumes step: "\<And>m acc. step m acc = acc \<and> \<not> present m
                  \<or> (\<exists>v. step m acc = AList.update m v acc) \<and> present m"
    and "distinct ms" and "set ms \<inter> fst ` set acc = {}"
  shows "map fst (fold step ms acc) = map fst acc @ filter present ms"
  using assms(2,3)
proof (induction ms arbitrary: acc)
  case Nil
  then show ?case by simp
next
  case (Cons m ms)
  have m: "m \<notin> fst ` set acc" using Cons.prems(2) by auto
  show ?case
  proof (cases "present m")
    case False
    then have "step m acc = acc" using step [of m acc] by auto
    then show ?thesis using Cons False by simp
  next
    case True
    then obtain v where v: "step m acc = AList.update m v acc" using step [of m acc] by auto
    have keys: "map fst (step m acc) = map fst acc @ [m]"
      using m by (simp add: v update_keys)
    then have "set ms \<inter> fst ` set (step m acc) = {}"
      using Cons.prems by (auto simp: v dom_update)
    then have "map fst (fold step ms (step m acc)) = map fst (step m acc) @ filter present ms"
      using Cons.IH Cons.prems(1) by simp
    then show ?thesis using True keys by simp
  qed
qed

lemma for_loop_update_keys:
  assumes step: "\<And>m acc acc'. step m acc = Inr acc' \<Longrightarrow>
                   acc' = acc \<and> \<not> present m \<or> (\<exists>v. acc' = AList.update m v acc) \<and> present m"
    and "for_loop step ms acc = Inr res"
    and "distinct ms" and "set ms \<inter> fst ` set acc = {}"
  shows "map fst res = map fst acc @ filter present ms"
  using assms(2,3,4)
proof (induction ms arbitrary: acc)
  case Nil
  then show ?case by simp
next
  case (Cons m ms)
  from Cons.prems(1) obtain acc' where
    s: "step m acc = Inr acc'" and rest: "for_loop step ms acc' = Inr res"
    by (auto split: sum.splits)
  have m: "m \<notin> fst ` set acc" using Cons.prems(3) by auto
  show ?case
  proof (cases "present m")
    case False
    then have "acc' = acc" using step [OF s] by auto
    then show ?thesis using Cons.IH [OF rest] Cons.prems False by simp
  next
    case True
    then obtain v where v: "acc' = AList.update m v acc" using step [OF s] by auto
    have keys: "map fst acc' = map fst acc @ [m]"
      using m by (simp add: v update_keys)
    then have "set ms \<inter> fst ` set acc' = {}"
      using Cons.prems by (auto simp: v dom_update)
    then have "map fst res = map fst acc' @ filter present ms"
      using Cons.IH [OF rest] Cons.prems(2) by simp
    then show ?thesis using True keys by simp
  qed
qed

section \<open>The descriptive statistics\<close>

lemma statistics_keys:
  "map fst (calculate_descriptive_statistics df) = filter (\<lambda>m. m \<in> set (columns df)) metrics"
proof -
  have "distinct metrics" by (simp add: metrics_def)
  moreover have "statistics_step df m acc = acc \<and> \<not> m \<in> set (columns df)
      \<or> (\<exists>v. statistics_step df m acc = AList.update m v acc) \<and> m \<in> set (columns df)" for m acc
    using getitem_None_iff [of df m]
    by (cases "getitem df m") (auto simp: statistics_step_def Let_def)
  ultimately show ?thesis
    unfolding calculate_descriptive_statistics_def
    using fold_update_keys [of "statistics_step df" "\<lambda>m. m \<in> set (columns df)" metrics "[]"]
    by simp
qed

section \<open>The threshold calculator\<close>

lemma thresholds_keys:
  assumes "meth \<in> {''percentile'', ''std'', ''iqr''}"
  shows "map fst (calculate_alertness_thresholds df meth) = filter (\<lambda>m. m \<in> set (columns df)) metrics"
proof -
  have "distinct metrics" by (simp add: metrics_def)
  moreover have "threshold_step df meth m acc = acc \<and> \<not> m \<in> set (columns df)
      \<or> (\<exists>v. threshold_step df meth m acc = AList.update m v acc) \<and> m \<in> set (columns df)" for m acc
    using getitem_None_iff [of df m] assms
    by (cases "getitem df m") (auto simp: threshold_step_def Let_def)
  ultimately show ?thesis
    unfolding calculate_alertness_thresholds_def
    using fold_update_keys [of "threshold_step df meth" "\<lambda>m. m \<in> set (columns df)" metrics "[]"]
    by simp
qed

lemma threshold_step_unknown:
  "meth \<noteq> ''percentile'' \<Longrightarrow> meth \<noteq> ''std'' \<Longrightarrow> meth \<noteq> ''iqr'' \<Longrightarrow>
     threshold_step df meth metric thresholds = thresholds"
  by (simp add: threshold_step_def split: option.split)

text \<open>
  Claim C6. For every table and every method selector other than \<^verbatim>\<open>percentile\<close>,
  \<^verbatim>\<open>std\<close> and \<^verbatim>\<open>iqr\<close>, the threshold calculator returns the empty threshold
  map. It cannot raise: no operation of the function does.
\<close>

theorem unknown_method_no_thresholds:
  "meth \<notin> {''percentile'', ''std'', ''iqr''} \<Longrightarrow> calculate_alertness_thresholds df meth = []"
  by (simp add: calculate_alertness_thresholds_def metrics_def threshold_step_unknown)

theorem unknown_method_no_thresholds_witness:
  "calculate_alertness_thresholds cpu_only_table ''median'' = []"
  using unknown_method_no_thresholds [of "''median''" cpu_only_table] by simp

subsection \<open>Critical against warning cutoffs\<close>










section \<open>The anomaly detector\<close>

subsection \<open>Critical rows are warning rows\<close>












subsection \<open>Thresholds of absent metrics\<close>

lemma anomaly_step_absent:
  "fst e \<notin> set (columns df) \<Longrightarrow> anomaly_step df e acc = Inr acc"
  by (simp add: anomaly_step_def getitem_None_iff [symmetric])

lemma for_loop_anomaly_filter:
  "for_loop (anomaly_step df) th acc
     = for_loop (anomaly_step df) (filter (\<lambda>e. fst e \<in> set (columns df)) th) acc"
  by (induction th arbitrary: acc) (auto simp: anomaly_step_absent split: sum.splits)

lemma anomaly_step_keys:
  assumes "anomaly_step df e acc = Inr acc'"
  shows "fst ` set acc' = fst ` set acc \<union> ({fst e} \<inter> set (columns df))"
proof (cases "getitem df (fst e)")
  case None
  then have "acc' = acc" using assms by (simp add: anomaly_step_def)
  moreover have "fst e \<notin> set (columns df)" using None by (simp add: getitem_None_iff)
  ultimately show ?thesis by auto
next
  case (Some col)
  then have "fst e \<in> set (columns df)" using getitem_None_iff [of df "fst e"] by simp
  moreover obtain v where "acc' = AList.update (fst e) v acc"
    using assms Some by (auto simp: anomaly_step_def Let_def split: sum.splits)
  ultimately show ?thesis by (auto simp: dom_update)
qed

lemma for_loop_anomaly_keys:
  "for_loop (anomaly_step df) th acc = Inr res \<Longrightarrow>
     fst ` set res = fst ` set acc \<union> (fst ` set th \<inter> set (columns df))"
proof (induction th arbitrary: acc)
  case Nil
  then show ?case by simp
next
  case (Cons e th)
  from Cons.prems obtain acc' where
    step: "anomaly_step df e acc = Inr acc'" and rest: "for_loop (anomaly_step df) th acc' = Inr res"
    by (auto split: sum.splits)
  show ?case using Cons.IH [OF rest] anomaly_step_keys [OF step] by auto
qed

lemma cpu_only_two_thresholds:
  "detect_anomalies cpu_only_table two_thresholds =
     Inr [(''CPU_Usage'',
           \<lparr>warning_count = 1, critical_count = 1,
            warning_data = loc cpu_only_table [False, True],
            critical_data = loc cpu_only_table [False, True],
            warning_percentage = 50, critical_percentage = 50\<rparr>)]"
  by (simp add: two_thresholds_def detect_anomalies_def anomaly_step_def
        cpu_only_table_def getitem_def series_gt_def float_gt_def
        loc_def select_def len_def copy_def true_div_def Let_def)

text \<open>
  Claim C10. The anomaly detector treats a threshold map as it treats the map without
  the entries of metrics that are not columns of the table: such an entry adds no anomaly
  entry and raises nothing. When the detector returns, its result has an entry for exactly
  the metrics that have a threshold entry and are columns of the table.
\<close>

theorem absent_threshold_metric_ignored:
  "detect_anomalies df thresholds
     = detect_anomalies df (filter (\<lambda>e. fst e \<in> set (columns df)) thresholds) \<and>
   (\<forall>anomalies. detect_anomalies df thresholds = Inr anomalies \<longrightarrow>
      fst ` set anomalies = fst ` set thresholds \<inter> set (columns df))"
  unfolding detect_anomalies_def
  using for_loop_anomaly_filter [of df thresholds "[]"] for_loop_anomaly_keys [of df thresholds "[]"]
  by auto

theorem absent_threshold_metric_ignored_witness:
  "detect_anomalies cpu_only_table two_thresholds
     = detect_anomalies cpu_only_table [hd two_thresholds] \<and>
   fst ` set two_thresholds \<inter> set (columns cpu_only_table) = {''CPU_Usage''}"
  using absent_threshold_metric_ignored [of cpu_only_table two_thresholds] cpu_only_two_thresholds
  by (simp add: two_thresholds_def cpu_only_table_def columns_def)

subsection \<open>The empty table\<close>

lemma detect_anomalies_raises:
  "detect_anomalies df th = Inl e \<longleftrightarrow>
     e = ZeroDivisionError \<and> len df = 0 \<and> fst ` set th \<inter> set (columns df) \<noteq> {}"
proof -
  have "for_loop (anomaly_step df) th acc = Inl e \<longleftrightarrow>
     e = ZeroDivisionError \<and> len df = 0 \<and> fst ` set th \<inter> set (columns df) \<noteq> {}" for acc
  proof (induction th arbitrary: acc)
    case Nil
    then show ?case by simp
  next
    case (Cons a th)
    show ?case
    proof (cases "getitem df (fst a)")
      case None
      then have "anomaly_step df a acc = Inr acc" by (simp add: anomaly_step_def)
      moreover have "fst a \<notin> set (columns df)" using None by (simp add: getitem_None_iff)
      ultimately show ?thesis using Cons.IH [of acc] by simp
    next
      case (Some col)
      then have present: "fst a \<in> set (columns df)" by (rule getitem_Some_columns)
      show ?thesis
      proof (cases "len df = 0")
        case True
        then have "anomaly_step df a acc = Inl ZeroDivisionError"
          using Some by (simp add: anomaly_step_def true_div_def Let_def)
        then show ?thesis using present True by auto
      next
        case False
        then obtain acc' where "anomaly_step df a acc = Inr acc'"
          using Some by (simp add: anomaly_step_def true_div_def Let_def)
        then show ?thesis using Cons.IH [of acc'] False by simp
      qed
    qed
  qed
  then show ?thesis by (simp add: detect_anomalies_def)
qed

lemma empty_table_percentile_thresholds:
  "calculate_alertness_thresholds empty_table ''percentile'' =
     [(''CPU_Usage'', \<lparr>warning = NaN, critical = NaN, method_name = ''percentile''\<rparr>),
      (''Memory_Usage'', \<lparr>warning = NaN, critical = NaN, method_name = ''percentile''\<rparr>),
      (''Network_Usage'', \<lparr>warning = NaN, critical = NaN, method_name = ''percentile''\<rparr>),
      (''Temperature'', \<lparr>warning = NaN, critical = NaN, method_name = ''percentile''\<rparr>)]"
  by (simp add: calculate_alertness_thresholds_def metrics_def threshold_step_def empty_table_def
      getitem_def quantile_def)

text \<open>
  Claim C1 says that on a table with no rows neither the threshold calculator nor the
  anomaly detector raises, the percentage being guarded against the zero row count.
  The threshold calculator returns NaN cutoffs for the metrics of the table; the anomaly
  detector, given these thresholds, divides by the row count and raises
  \<^verbatim>\<open>ZeroDivisionError\<close>: the division of lines 242 and 243 has no guard. The
  detector raises on exactly the tables with no rows that have a column with a threshold
  entry (\<open>detect_anomalies_raises\<close>).
\<close>

theorem empty_table_division_by_zero:
  "map fst (calculate_alertness_thresholds empty_table ''percentile'') = metrics \<and>
   detect_anomalies empty_table (calculate_alertness_thresholds empty_table ''percentile'')
     = Inl ZeroDivisionError"
  by (simp add: empty_table_percentile_thresholds detect_anomalies_def anomaly_step_def metrics_def)
     (simp add: empty_table_def getitem_def true_div_def len_def loc_def copy_def select_def)

section \<open>The time-pattern aggregator\<close>

lemma those_Some: "None \<notin> set xs \<Longrightarrow> \<exists>ys. those xs = Some ys"
proof (induction xs)
  case Nil
  then show ?case by simp
next
  case (Cons a xs)
  then obtain y ys where "a = Some y" "those xs = Some ys" by (cases a) auto
  then show ?case by simp
qed

lemma those_None: "None \<in> set xs \<Longrightarrow> those xs = None"
  by (induction xs) (auto split: option.splits)

lemma Some_in_map_option:
  "{x. Some x \<in> map_option f ` S} = f ` {t. Some t \<in> S}"
proof -
  have "Some x \<in> map_option f ` S \<longleftrightarrow> (\<exists>t. Some t \<in> S \<and> x = f t)" for x
  proof
    assume "Some x \<in> map_option f ` S"
    then obtain y where y: "y \<in> S" "Some x = map_option f y" by auto
    then show "\<exists>t. Some t \<in> S \<and> x = f t" by (cases y) auto
  next
    assume "\<exists>t. Some t \<in> S \<and> x = f t"
    then obtain t where t: "Some t \<in> S" "x = f t" by auto
    then have "map_option f (Some t) \<in> map_option f ` S" by (intro imageI)
    then show "Some x \<in> map_option f ` S" using t(2) by simp
  qed
  then show ?thesis by auto
qed

lemma groupby_agg_error: "groupby_agg df key cols = Inl e \<Longrightarrow> e = KeyError"
  by (auto simp: groupby_agg_def split: option.splits)

lemma groupby_agg_ok:
  assumes "key \<in> set (columns df)" and "set cols \<subseteq> set (columns df)"
  shows "\<exists>t. groupby_agg df key cols = Inr t"
proof -
  obtain ks where ks: "getitem df key = Some ks"
    using assms(1) getitem_None_iff [of df key] by auto
  have "None \<notin> set (map (\<lambda>c. map_option (Pair c) (getitem df c)) cols)"
    using assms(2) getitem_None_iff [of df] by auto
  then obtain sel where "those (map (\<lambda>c. map_option (Pair c) (getitem df c)) cols) = Some sel"
    using those_Some by blast
  then show ?thesis by (simp add: groupby_agg_def ks)
qed

lemma groupby_agg_missing:
  assumes "\<not> set cols \<subseteq> set (columns df)"
  shows "groupby_agg df key cols = Inl KeyError"
proof -
  obtain c where "c \<in> set cols" "getitem df c = None"
    using assms getitem_None_iff [of df] by auto
  then have "None \<in> set (map (\<lambda>c. map_option (Pair c) (getitem df c)) cols)"
    by force
  then show ?thesis by (simp add: groupby_agg_def those_None split: option.split)
qed

lemma time_patterns_of_error: "time_patterns_of df = Inl e \<Longrightarrow> e = KeyError"
  by (auto simp: time_patterns_of_def Let_def split: sum.splits option.splits if_splits
      dest: groupby_agg_error)

lemma dt_error: "dt s = Inl e \<Longrightarrow> e = AttributeError"
  by (cases s) auto

lemma set_dropna: "set (dropna xs) = {x. Some x \<in> set xs}"
  by (induction xs rule: dropna.induct) auto

lemma nunique_date_column:
  "nunique (date_column ts) = card (dt_date ` {t. Some t \<in> set ts})"
proof -
  have "numeric (date_column ts) = map (map_option (\<lambda>t. real_of_int (dt_date t))) ts"
    by (simp add: date_column_def option.map_comp comp_def)
  then have "set (dropna (numeric (date_column ts))) = real_of_int ` dt_date ` {t. Some t \<in> set ts}"
    by (simp add: set_dropna Some_in_map_option image_image)
  moreover have "card (real_of_int ` A) = card A" for A :: "int set"
    by (intro card_image inj_onI) simp
  ultimately show ?thesis
    by (simp add: nunique_def length_remdups_card_conv)
qed

lemma time_patterns_of_ok:
  assumes "set metrics \<subseteq> set (columns df)" and "getitem df ''Hour'' = Some hs"
    and "getitem df ''Date'' = Some ds"
  shows "\<exists>hourly daily. time_patterns_of df =
           Inr (if 1 < nunique ds then [(''hourly'', hourly), (''daily'', daily)]
                else [(''hourly'', hourly)])"
proof -
  have "''Hour'' \<in> set (columns df)" "''Date'' \<in> set (columns df)"
    using assms(2,3) by (auto dest: getitem_Some_columns)
  then obtain hourly daily where
    "groupby_agg df ''Hour'' metrics = Inr hourly" "groupby_agg df ''Date'' metrics = Inr daily"
    using groupby_agg_ok assms(1) by blast
  then show ?thesis
    by (auto simp: time_patterns_of_def assms(3))
qed

subsection \<open>The validation error\<close>

text \<open>
  Claim C8 says that the aggregator fails with a validation error exactly when the table
  has neither of the two timestamp columns \<^verbatim>\<open>Time\<close> and \<^verbatim>\<open>dteday\<close>. The test
  of line 143 looks for \<^verbatim>\<open>Time\<close> only: a table whose timestamps are under
  \<^verbatim>\<open>dteday\<close> is rejected with the validation error.
\<close>

theorem dteday_table_rejected:
  "load_csv_time_column dteday_table = Some ''dteday'' \<and>
   analyze_time_patterns dteday_table = Inl (ValueError ''Time column not found in DataFrame'')"
  by (simp add: analyze_time_patterns_def load_csv_time_column_def dteday_table_def columns_def
      getitem_def)

text \<open>
  Claim C8, amended. The aggregator fails with a validation error (\<^verbatim>\<open>ValueError\<close>)
  exactly when the table has no column named \<^verbatim>\<open>Time\<close>.
\<close>

theorem validation_error_iff_no_Time:
  "(\<exists>msg. analyze_time_patterns df = Inl (ValueError msg)) \<longleftrightarrow> ''Time'' \<notin> set (columns df)"
proof (cases "getitem df ''Time''")
  case None
  then show ?thesis
    using getitem_None_iff [of df "''Time''"] by (simp add: analyze_time_patterns_def)
next
  case (Some col)
  then have "''Time'' \<in> set (columns df)"
    using getitem_None_iff [of df "''Time''"] by simp
  moreover have "analyze_time_patterns df \<noteq> Inl (ValueError msg)" for msg
    using Some
    by (auto simp: analyze_time_patterns_def copy_def Let_def split: sum.splits
        dest: dt_error time_patterns_of_error)
  ultimately show ?thesis by simp
qed

theorem validation_error_iff_no_Time_witness:
  "(\<exists>msg. analyze_time_patterns two_day_table = Inl (ValueError msg)) = False \<and>
   (\<exists>msg. analyze_time_patterns dteday_table = Inl (ValueError msg)) = True"
  using validation_error_iff_no_Time [of two_day_table] validation_error_iff_no_Time [of dteday_table]
  by (simp add: two_day_table_def dteday_table_def columns_def)

subsection \<open>Hourly and daily groupings\<close>

text \<open>
  Claim C7 says that for every table with a timestamp column the aggregator produces the
  hourly grouping, and the daily grouping exactly when the table spans more than one
  date. A table with all four metrics whose timestamps, on two dates, are under
  \<^verbatim>\<open>dteday\<close> gets no grouping at all: the aggregator raises.
\<close>

theorem dteday_table_no_hourly:
  "getitem dteday_table ''dteday'' = Some (Datetime64 [Some 0, Some ns_per_day]) \<and>
   dt_date 0 \<noteq> dt_date ns_per_day \<and>
   set metrics \<subseteq> set (columns dteday_table) \<and>
   analyze_time_patterns dteday_table = Inl (ValueError ''Time column not found in DataFrame'')"
  by (simp add: analyze_time_patterns_def dteday_table_def columns_def getitem_def metrics_def
      dt_date_def ns_per_day_def)

text \<open>
  Claim C7, amended. For every table with a datetime column named \<^verbatim>\<open>Time\<close> and all
  four metric columns, the aggregator returns the hourly grouping, followed by the daily
  grouping if and only if the non-null timestamps fall on more than one calendar date;
  otherwise the result has the hourly grouping alone.
\<close>

theorem hourly_always_daily_when_dates_differ:
  assumes "getitem df ''Time'' = Some (Datetime64 ts)" and "set metrics \<subseteq> set (columns df)"
  shows "\<exists>hourly daily. analyze_time_patterns df =
           Inr (if 1 < card (dt_date ` {t. Some t \<in> set ts})
                then [(''hourly'', hourly), (''daily'', daily)]
                else [(''hourly'', hourly)])"
proof -
  define df3 where
    "df3 = setitem (setitem (setitem df ''Hour'' (hour_column ts))
              ''DayOfWeek'' (dayofweek_column ts)) ''Date'' (date_column ts)"
  have run: "analyze_time_patterns df = time_patterns_of df3"
    by (simp add: analyze_time_patterns_def assms(1) copy_def df3_def)
  have cols: "set metrics \<subseteq> set (columns df3)"
    unfolding df3_def using assms(2) columns_setitem by blast
  have h: "getitem df3 ''Hour'' = Some (hour_column ts)"
    and d: "getitem df3 ''Date'' = Some (date_column ts)"
    by (simp_all add: df3_def getitem_setitem)
  show ?thesis
    using time_patterns_of_ok [OF cols h d] by (simp only: run nunique_date_column)
qed

theorem hourly_always_daily_when_dates_differ_witness:
  "(\<exists>hourly daily. analyze_time_patterns two_day_table = Inr [(''hourly'', hourly), (''daily'', daily)]) \<and>
   (\<exists>hourly. analyze_time_patterns one_day_table = Inr [(''hourly'', hourly)])"
proof -
  have a: "getitem two_day_table ''Time'' = Some (Datetime64 [Some 0, Some ns_per_day])"
    and b: "getitem one_day_table ''Time'' = Some (Datetime64 [Some 0, Some ns_per_hour])"
    by (simp_all add: two_day_table_def one_day_table_def getitem_def)
  have c: "set metrics \<subseteq> set (columns two_day_table)" "set metrics \<subseteq> set (columns one_day_table)"
    by (simp_all add: two_day_table_def one_day_table_def columns_def metrics_def)
  have d: "{t. t = 0 \<or> t = k} = {0, k}" for k :: int
    by auto
  show ?thesis
    using hourly_always_daily_when_dates_differ [OF a c(1)]
      hourly_always_daily_when_dates_differ [OF b c(2)]
    by (simp add: d dt_date_def ns_per_day_def ns_per_hour_def)
qed

subsection \<open>Absent metric columns\<close>

lemma time_patterns_missing_metric:
  assumes "getitem df ''Time'' = Some (Datetime64 ts)" and "\<not> set metrics \<subseteq> set (columns df)"
  shows "analyze_time_patterns df = Inl KeyError"
proof -
  define df3 where
    "df3 = setitem (setitem (setitem df ''Hour'' (hour_column ts))
              ''DayOfWeek'' (dayofweek_column ts)) ''Date'' (date_column ts)"
  have run: "analyze_time_patterns df = time_patterns_of df3"
    by (simp add: analyze_time_patterns_def assms(1) copy_def df3_def)
  have "set (columns df3) = set (columns df) \<union> {''Hour'', ''DayOfWeek'', ''Date''}"
    by (auto simp: df3_def columns_def setitem_def dom_update)
  moreover have "set metrics \<inter> {''Hour'', ''DayOfWeek'', ''Date''} = {}"
    by (simp add: metrics_def)
  ultimately have "\<not> set metrics \<subseteq> set (columns df3)"
    using assms(2) by auto
  then show ?thesis
    by (simp add: run time_patterns_of_def groupby_agg_missing)
qed

text \<open>
  Claim C2 says that every stage processes the metric columns present and skips an
  absent one without raising. The descriptive statistics, the threshold calculator and
  the distribution analyzer do, behind their test \<^verbatim>\<open>metric in df.columns\<close>
  (\<open>statistics_keys\<close>, \<open>thresholds_keys\<close>, \<open>distribution_keys\<close>). The time-pattern
  aggregator selects all four metric columns from the grouped table with no such test:
  on a table that has a datetime \<^verbatim>\<open>Time\<close> column and lacks a metric it raises
  \<^verbatim>\<open>KeyError\<close> (\<open>time_patterns_missing_metric\<close>), as on the table of two CPU
  readings.
\<close>

theorem missing_metric_key_error:
  "map fst (calculate_descriptive_statistics cpu_only_table) = [''CPU_Usage''] \<and>
   map fst (calculate_alertness_thresholds cpu_only_table ''percentile'') = [''CPU_Usage''] \<and>
   analyze_time_patterns cpu_only_table = Inl KeyError"
  by (simp add: calculate_descriptive_statistics_def statistics_step_def
      calculate_alertness_thresholds_def threshold_step_def metrics_def
      analyze_time_patterns_def time_patterns_of_def groupby_agg_def
      cpu_only_table_def getitem_def setitem_def copy_def hour_column_def Let_def)

section \<open>The distribution analyzer\<close>

lemma distribution_keys:
  assumes "analyze_data_distribution stats df = Inr res"
  shows "map fst res = filter (\<lambda>m. m \<in> set (columns df)) metrics"
proof -
  have "distinct metrics" by (simp add: metrics_def)
  moreover have "acc' = acc \<and> \<not> m \<in> set (columns df)
      \<or> (\<exists>v. acc' = AList.update m v acc) \<and> m \<in> set (columns df)"
    if "distribution_step stats df m acc = Inr acc'" for m acc acc'
    using that getitem_None_iff [of df m]
    by (cases "getitem df m") (auto simp: distribution_step_def split: sum.splits)
  ultimately show ?thesis
    using assms for_loop_update_keys [of "distribution_step stats df" "\<lambda>m. m \<in> set (columns df)" metrics "[]" res]
    unfolding analyze_data_distribution_def by simp
qed

lemma for_loop_distribution_other:
  "for_loop (distribution_step stats df) ms acc = Inr res \<Longrightarrow> m \<notin> set ms \<Longrightarrow>
     map_of res m = map_of acc m"
proof (induction ms arbitrary: acc)
  case Nil
  then show ?case by simp
next
  case (Cons a ms)
  from Cons.prems(1) obtain acc' where
    step: "distribution_step stats df a acc = Inr acc'"
    and rest: "for_loop (distribution_step stats df) ms acc' = Inr res"
    by (auto split: sum.splits)
  have "map_of acc' m = map_of acc m"
    using step Cons.prems(2)
    by (auto simp: distribution_step_def update_conv' split: option.splits sum.splits)
  then show ?case using Cons.IH [OF rest] Cons.prems(2) by simp
qed

lemma for_loop_distribution_entry:
  assumes "for_loop (distribution_step stats df) ms acc = Inr res"
    and "distinct ms" and "m \<in> set ms" and "getitem df m = Some col"
  shows "\<exists>d. map_of res m = Some d \<and> distribution_of stats (dropna (numeric col)) = Inr d"
  using assms(1,2,3)
proof (induction ms arbitrary: acc)
  case Nil
  then show ?case by simp
next
  case (Cons a ms)
  from Cons.prems(1) obtain acc' where
    step: "distribution_step stats df a acc = Inr acc'"
    and rest: "for_loop (distribution_step stats df) ms acc' = Inr res"
    by (auto split: sum.splits)
  show ?case
  proof (cases "m = a")
    case True
    then obtain d where d: "distribution_of stats (dropna (numeric col)) = Inr d"
      and acc': "acc' = AList.update m d acc"
      using step assms(4) by (auto simp: distribution_step_def split: sum.splits)
    have "m \<notin> set ms" using Cons.prems(2) True by simp
    then have "map_of res m = map_of acc' m"
      using for_loop_distribution_other [OF rest] by simp
    then show ?thesis using d acc' by (simp add: update_conv')
  next
    case False
    then show ?thesis using Cons.IH [OF rest] Cons.prems(2,3) by simp
  qed
qed

lemma cpu_only_distribution:
  "analyze_data_distribution small_sample_stats cpu_only_table =
     Inr [(''CPU_Usage'',
           \<lparr>shapiro_statistic = NaN, shapiro_p_value = NaN,
            ks_statistic = Some (1 / 4), ks_p_value = Some (9 / 10),
            skewness = Some 0, kurtosis_val = Some (- 2), is_normal = True\<rparr>)]"
  by (simp add: analyze_data_distribution_def distribution_step_def distribution_of_def
      shapiro_or_nan_def metrics_def small_sample_stats_def cpu_only_table_def getitem_def
      isnan_def float_gt_def)

text \<open>
  Claim C5 says that the verdict is (Shapiro p-value > 0.05) whenever the Shapiro-Wilk
  test was computed, that is, on every sample of at most 5000 values. The analyzer
  tests the p-value for NaN, not the sample size: when the test, computed on a sample of
  two values, reports NaN, the verdict is taken from the KS p-value and is true, while
  NaN > 0.05 is false.
\<close>

theorem nan_shapiro_verdict_from_ks:
  "getitem cpu_only_table ''CPU_Usage'' = Some (Float64 [Some 50, Some 70]) \<and>
   length (dropna [Some 50, Some 70]) \<le> 5000 \<and>
   shapiro small_sample_stats [50, 70] = Inr (NaN, NaN) \<and>
   analyze_data_distribution small_sample_stats cpu_only_table =
     Inr [(''CPU_Usage'',
           \<lparr>shapiro_statistic = NaN, shapiro_p_value = NaN,
            ks_statistic = Some (1 / 4), ks_p_value = Some (9 / 10),
            skewness = Some 0, kurtosis_val = Some (- 2), is_normal = True\<rparr>)] \<and>
   \<not> float_gt NaN (Some (5 / 100))"
  by (simp add: cpu_only_distribution)
     (simp add: cpu_only_table_def getitem_def small_sample_stats_def float_gt_def)

text \<open>
  Claim C5, amended. For every metric present, when the analyzer returns: the Shapiro
  outputs are those of the Shapiro-Wilk test on the non-null sample exactly when the
  sample has at most 5000 values, and are NaN otherwise; the KS outputs are those of
  the KS test; the verdict is (Shapiro p-value > 0.05) when the Shapiro-Wilk test was
  computed and its p-value is not NaN, and (KS p-value > 0.05) otherwise.
\<close>

theorem shapiro_up_to_5000_and_verdict:
  assumes "analyze_data_distribution stats df = Inr results"
    and "metric \<in> set metrics" and "getitem df metric = Some col"
  shows "\<exists>d. map_of results metric = Some d \<and>
           (if length (dropna (numeric col)) \<le> 5000
            then shapiro stats (dropna (numeric col)) = Inr (shapiro_statistic d, shapiro_p_value d)
            else shapiro_statistic d = NaN \<and> shapiro_p_value d = NaN) \<and>
           kstest stats (dropna (numeric col)) (mean (dropna (numeric col))) (std (dropna (numeric col)))
             = Inr (ks_statistic d, ks_p_value d) \<and>
           is_normal d =
             (if length (dropna (numeric col)) \<le> 5000 \<and> shapiro_p_value d \<noteq> NaN
              then float_gt (shapiro_p_value d) (Some (5 / 100))
              else float_gt (ks_p_value d) (Some (5 / 100)))"
proof -
  have "distinct metrics" by (simp add: metrics_def)
  then obtain d where d: "map_of results metric = Some d"
    and run: "distribution_of stats (dropna (numeric col)) = Inr d"
    using for_loop_distribution_entry [of stats df metrics "[]" results metric col] assms
    by (auto simp: analyze_data_distribution_def)
  show ?thesis
    using run
    by (intro exI [of _ d])
       (auto simp: d distribution_of_def shapiro_or_nan_def isnan_def
         split: sum.splits prod.splits if_splits)
qed

theorem shapiro_up_to_5000_and_verdict_witness:
  "\<exists>d. map_of [(''CPU_Usage'',
           \<lparr>shapiro_statistic = NaN, shapiro_p_value = NaN,
            ks_statistic = Some (1 / 4), ks_p_value = Some (9 / 10),
            skewness = Some 0, kurtosis_val = Some (- 2), is_normal = True\<rparr>)] ''CPU_Usage'' = Some d \<and>
        is_normal d = float_gt (ks_p_value d) (Some (5 / 100))"
  using shapiro_up_to_5000_and_verdict [OF cpu_only_distribution, of "''CPU_Usage''" "Float64 [Some 50, Some 70]"]
  by (simp add: metrics_def cpu_only_table_def getitem_def)

section \<open>The source table is not written to\<close>

lemma setitem_ref_last:
  "setitem_ref (length h) c s (h @ [x]) = h @ [setitem x c s]"
  by (simp add: setitem_ref_def)

lemma analyze_time_patterns_ref_heap:
  "\<exists>new. snd (analyze_time_patterns_ref df h) = h @ new"
  by (auto simp: analyze_time_patterns_ref_def copy_ref_def setitem_ref_last Let_def
      split: option.splits sum.splits)

lemma analyze_time_patterns_ref_result:
  "df < length h \<Longrightarrow> fst (analyze_time_patterns_ref df h) = analyze_time_patterns (h ! df)"
  by (auto simp: analyze_time_patterns_ref_def analyze_time_patterns_def copy_ref_def
      setitem_ref_last Let_def copy_def nth_append split: option.splits sum.splits)

lemma two_day_heap:
  "snd (analyze_time_patterns_ref 0 [two_day_table]) =
     [two_day_table,
      setitem (setitem (setitem two_day_table ''Hour'' (hour_column [Some 0, Some ns_per_day]))
         ''DayOfWeek'' (dayofweek_column [Some 0, Some ns_per_day]))
         ''Date'' (date_column [Some 0, Some ns_per_day])]"
  by (simp add: analyze_time_patterns_ref_def copy_ref_def setitem_ref_def copy_def Let_def
        getitem_def two_day_table_def)

text \<open>
  Claim C9. Every table object that exists before a call of one of the five analysis
  functions, the table passed in among them, is unchanged after the call, whether the
  function returns or raises: the time-pattern aggregator writes its derived columns to
  the copy it allocates, and the other four functions write to no table.
\<close>

theorem source_table_unchanged:
  assumes "r < length h"
  shows "snd (calculate_descriptive_statistics_ref df h) ! r = h ! r \<and>
         snd (analyze_data_distribution_ref stats df h) ! r = h ! r \<and>
         snd (analyze_time_patterns_ref df h) ! r = h ! r \<and>
         snd (calculate_alertness_thresholds_ref df meth h) ! r = h ! r \<and>
         snd (detect_anomalies_ref df thresholds h) ! r = h ! r"
proof -
  obtain new where "snd (analyze_time_patterns_ref df h) = h @ new"
    using analyze_time_patterns_ref_heap by blast
  then have "snd (analyze_time_patterns_ref df h) ! r = h ! r"
    using assms by (simp add: nth_append)
  then show ?thesis
    by (simp add: calculate_descriptive_statistics_ref_def analyze_data_distribution_ref_def
        calculate_alertness_thresholds_ref_def detect_anomalies_ref_def)
qed

theorem source_table_unchanged_witness:
  "snd (analyze_time_patterns_ref 0 [two_day_table]) ! 0 = two_day_table \<and>
   columns (snd (analyze_time_patterns_ref 0 [two_day_table]) ! 1)
     = columns two_day_table @ [''Hour'', ''DayOfWeek'', ''Date'']"
  using source_table_unchanged [of 0 "[two_day_table]" 0 small_sample_stats "''std''" two_thresholds]
  by (simp add: two_day_heap)
     (simp add: columns_def setitem_def two_day_table_def)

end
